theory Spec2Isabelle
  imports Main
begin

section \<open>Python values and exceptions\<close>

text \<open>
  The scalar values a result row can carry, and the objects (ORM entities) a query can
  select. \<open>PNone\<close> is Python's \<open>None\<close>: it is both the value of a NULL column and what
  \<open>one_or_none\<close> answers for an empty result. An object carries the text its
  \<open>__str__\<close> produces and its attributes in definition order.
\<close>

datatype pyval =
    PNone
  | PBool bool
  | PInt int
  | PStr string
  | PObj string "(string \<times> pyval) list"

text \<open>
  The exception classes that occur in \<open>query.py\<close>, with the classes of SQLAlchemy and of
  the Python runtime they derive from. \<open>UserError n\<close> stands for any further class that
  derives from \<open>Exception\<close> directly (a session fault, a caller's own error).
\<close>

datatype exn_class =
    Exception
  | AttributeError
  | TypeError
  | ValueError
  | SQLAlchemyError
  | InvalidRequestError
  | NoResultFound
  | MultipleResultsFound
  | QueryError
  | NoResultError
  | MultipleResultsError
  | UserError string

text \<open>
  An exception instance: its class, its message, and the \<open>__cause__\<close> that
  \<open>raise ... from ex\<close> attaches.
\<close>

datatype exn = Exn (exn_cls: exn_class) (exn_msg: string) (exn_cause: "exn option")

text \<open>
  The method resolution order of each class:
  \<^verbatim>\<open>class QueryError(Exception)\<close>,
  \<^verbatim>\<open>class NoResultError(QueryError, NoResultFound)\<close>,
  \<^verbatim>\<open>class MultipleResultsError(QueryError, MultipleResultsFound)\<close>.
\<close>

fun mro :: "exn_class \<Rightarrow> exn_class list" where
  "mro Exception = [Exception]"
| "mro AttributeError = [AttributeError, Exception]"
| "mro TypeError = [TypeError, Exception]"
| "mro ValueError = [ValueError, Exception]"
| "mro SQLAlchemyError = [SQLAlchemyError, Exception]"
| "mro InvalidRequestError = [InvalidRequestError, SQLAlchemyError, Exception]"
| "mro NoResultFound = [NoResultFound, InvalidRequestError, SQLAlchemyError, Exception]"
| "mro MultipleResultsFound =
     [MultipleResultsFound, InvalidRequestError, SQLAlchemyError, Exception]"
| "mro QueryError = [QueryError, Exception]"
| "mro NoResultError =
     [NoResultError, QueryError, NoResultFound, InvalidRequestError, SQLAlchemyError,
      Exception]"
| "mro MultipleResultsError =
     [MultipleResultsError, QueryError, MultipleResultsFound, InvalidRequestError,
      SQLAlchemyError, Exception]"
| "mro (UserError n) = [UserError n, Exception]"

text \<open>\<open>except C as ex\<close> catches \<open>ex\<close> when \<open>isinstance(ex, C)\<close>.\<close>

definition isinstance :: "exn \<Rightarrow> exn_class \<Rightarrow> bool" where
  "isinstance ex c = (c \<in> set (mro (exn_cls ex)))"

text \<open>
  Truth value testing (\<open>if entity\<close>, \<open>if count\<close>): \<open>None\<close>, \<open>False\<close>, zero and the empty
  string are false. An object is true (no entity class here defines \<open>__bool__\<close> or
  \<open>__len__\<close>).
\<close>

fun py_truthy :: "pyval \<Rightarrow> bool" where
  "py_truthy PNone = False"
| "py_truthy (PBool b) = b"
| "py_truthy (PInt i) = (i \<noteq> 0)"
| "py_truthy (PStr s) = (s \<noteq> [])"
| "py_truthy (PObj s attrs) = True"

section \<open>The session\<close>

text \<open>
  A statement is the caller's opaque query descriptor (\<open>Select q\<close>) or one of the
  statements \<open>query.py\<close> builds from it:
  \<^verbatim>\<open>sa.select(sa.exists(stmt))\<close>,
  \<^verbatim>\<open>sa.select(sa.func.count()).select_from(stmt.subquery())\<close> and
  \<^verbatim>\<open>stmt.execution_options(yield_per=batch_size)\<close>.
\<close>

datatype 'q stmt =
    Select 'q
  | Select_exists "'q stmt"
  | Select_count_from_subquery "'q stmt"
  | Execution_options_yield_per nat "'q stmt"

text \<open>A result row: its first column and the remaining ones. \<open>row[0]\<close> is the first.\<close>

datatype row = Row (row0: pyval) (row_rest: "pyval list")

text \<open>
  The session is an external collaborator (SQLAlchemy's \<open>AsyncSession\<close> on a database).
  The database answers a caller's query with its rows in database order, or with a fault.
  The derived statements have their SQL meaning: \<open>EXISTS\<close> over a sub-query is one
  boolean row, \<open>count(*)\<close> over a sub-query is one integer row, and an execution option
  does not change the rows.
\<close>

fun run :: "('q \<Rightarrow> exn + row list) \<Rightarrow> 'q stmt \<Rightarrow> exn + row list" where
  "run db (Select q) = db q"
| "run db (Select_exists s) =
     (case run db s of
        Inl e \<Rightarrow> Inl e
      | Inr rs \<Rightarrow> Inr [Row (PBool (rs \<noteq> [])) []])"
| "run db (Select_count_from_subquery s) =
     (case run db s of
        Inl e \<Rightarrow> Inl e
      | Inr rs \<Rightarrow> Inr [Row (PInt (int (length rs))) []])"
| "run db (Execution_options_yield_per n s) = run db s"

text \<open>
  What the session was asked to do: \<open>dbsession.scalars(stmt)\<close> or
  \<open>dbsession.stream(stmt)\<close>.
\<close>

datatype 'q call = Scalars "'q stmt" | Stream "'q stmt"

record 'q session =
  database :: "'q \<Rightarrow> exn + row list"
  dispatched :: "'q call list"

text \<open>
  \<open>await dbsession.scalars(stmt)\<close>: executes the statement and gives the first column of
  every row (a \<open>ScalarResult\<close>), or raises the fault.
\<close>

definition scalars :: "'q session \<Rightarrow> 'q stmt \<Rightarrow> (exn + pyval list) \<times> 'q session" where
  "scalars s stmt =
     (case run (database s) stmt of
        Inl e \<Rightarrow> Inl e
      | Inr rs \<Rightarrow> Inr (map row0 rs),
      s\<lparr>dispatched := dispatched s @ [Scalars stmt]\<rparr>)"

text \<open>\<open>await dbsession.stream(stmt)\<close>: executes the statement and gives its rows.\<close>

definition stream :: "'q session \<Rightarrow> 'q stmt \<Rightarrow> (exn + row list) \<times> 'q session" where
  "stream s stmt =
     (run (database s) stmt, s\<lparr>dispatched := dispatched s @ [Stream stmt]\<rparr>)"

text \<open>\<open>ScalarResult.one()\<close>, \<open>ScalarResult.one_or_none()\<close> and \<open>ScalarResult.all()\<close>.\<close>

fun result_one :: "pyval list \<Rightarrow> exn + pyval" where
  "result_one [] =
     Inl (Exn NoResultFound ''No row was found when one was required'' None)"
| "result_one [x] = Inr x"
| "result_one (x # y # zs) =
     Inl (Exn MultipleResultsFound
            ''Multiple rows were found when exactly one was required'' None)"

fun result_one_or_none :: "pyval list \<Rightarrow> exn + pyval" where
  "result_one_or_none [] = Inr PNone"
| "result_one_or_none [x] = Inr x"
| "result_one_or_none (x # y # zs) =
     Inl (Exn MultipleResultsFound
            ''Multiple rows were found when one or none was required'' None)"

definition result_all :: "pyval list \<Rightarrow> pyval list" where
  "result_all xs = xs"

section \<open>Query: cardinality operations\<close>

text \<open>
  \<^verbatim>\<open>
  try:
      rows = await self.dbsession.scalars(stmt)
      return rows.one()
  except NoResultFound as ex:
      raise NoResultError from ex
  except MultipleResultsFound as ex:
      raise MultipleResultsError from ex
  \<close>
\<close>

definition one :: "'q session \<Rightarrow> 'q stmt \<Rightarrow> (exn + pyval) \<times> 'q session" where
  "one s stmt =
     (case scalars s stmt of (r, s') \<Rightarrow>
        (case (case r of Inl e \<Rightarrow> Inl e | Inr rows \<Rightarrow> result_one rows) of
           Inr v \<Rightarrow> Inr v
         | Inl ex \<Rightarrow>
             if isinstance ex NoResultFound then Inl (Exn NoResultError [] (Some ex))
             else if isinstance ex MultipleResultsFound
               then Inl (Exn MultipleResultsError [] (Some ex))
             else Inl ex,
         s'))"

text \<open>
  \<^verbatim>\<open>
  try:
      rows = await self.dbsession.scalars(stmt)
      return rows.one_or_none()
  except MultipleResultsFound as ex:
      raise MultipleResultsError from ex
  \<close>
\<close>

definition one_or_none :: "'q session \<Rightarrow> 'q stmt \<Rightarrow> (exn + pyval) \<times> 'q session" where
  "one_or_none s stmt =
     (case scalars s stmt of (r, s') \<Rightarrow>
        (case (case r of Inl e \<Rightarrow> Inl e | Inr rows \<Rightarrow> result_one_or_none rows) of
           Inr v \<Rightarrow> Inr v
         | Inl ex \<Rightarrow>
             if isinstance ex MultipleResultsFound
               then Inl (Exn MultipleResultsError [] (Some ex))
             else Inl ex,
         s'))"

text \<open>
  \<^verbatim>\<open>
  entity = await self.one_or_none(stmt)
  if entity is None:
      raise exc
  return entity
  \<close>
\<close>

definition one_or_raise ::
  "'q session \<Rightarrow> 'q stmt \<Rightarrow> exn \<Rightarrow> (exn + pyval) \<times> 'q session" where
  "one_or_raise s stmt exc =
     (case one_or_none s stmt of (r, s') \<Rightarrow>
        (case r of
           Inl e \<Rightarrow> Inl e
         | Inr entity \<Rightarrow> if entity = PNone then Inl exc else Inr entity,
         s'))"

text \<open>
  \<^verbatim>\<open>
  entity = await self.one_or_none(stmt)
  return entity if entity else default_value
  \<close>
\<close>

definition one_or_default ::
  "'q session \<Rightarrow> 'q stmt \<Rightarrow> pyval \<Rightarrow> (exn + pyval) \<times> 'q session" where
  "one_or_default s stmt default_value =
     (case one_or_none s stmt of (r, s') \<Rightarrow>
        (case r of
           Inl e \<Rightarrow> Inl e
         | Inr entity \<Rightarrow> Inr (if py_truthy entity then entity else default_value),
         s'))"

section \<open>Query: bulk and streaming operations\<close>

text \<open>
  Modelled from the spec: the class \<open>Collection\<close> of
  \<open>starlette_sqlalchemy.collection\<close>, which is not among the sources. Section 3 of
  the specification describes it as an ordered, finite, already materialised sequence
  whose order is the database row order; iterating it gives its elements in that order.
\<close>

datatype 'a collection = Collection "'a list"

fun collection_iter :: "'a collection \<Rightarrow> 'a list" where
  "collection_iter (Collection xs) = xs"

text \<open>
  \<^verbatim>\<open>
  result = await self.dbsession.scalars(stmt)
  return Collection(result.all())
  \<close>
\<close>

definition all ::
  "'q session \<Rightarrow> 'q stmt \<Rightarrow> (exn + pyval collection) \<times> 'q session" where
  "all s stmt =
     (case scalars s stmt of (r, s') \<Rightarrow>
        (case r of
           Inl e \<Rightarrow> Inl e
         | Inr result \<Rightarrow> Inr (Collection (result_all result)),
         s'))"

text \<open>
  \<open>AsyncResult.partitions(size)\<close> fetches \<open>n\<close> rows at a time and yields each
  batch until a fetch comes back empty.
\<close>

function partitions :: "nat \<Rightarrow> 'a list \<Rightarrow> 'a list list" where
  "partitions n rows =
     (case take n rows of
        [] \<Rightarrow> []
      | p # ps \<Rightarrow> (p # ps) # partitions n (drop n rows))"
  by pat_completeness auto
termination
proof (relation "measure (\<lambda>(n, rows). length rows)")
  show "wf (measure (\<lambda>(n :: nat, rows :: 'a list). length rows))"
    by simp
next
  fix n :: nat and rows :: "'a list" and p ps
  assume t: "take n rows = p # ps"
  have n: "n \<noteq> 0"
  proof
    assume "n = 0"
    with t show False by simp
  qed
  have r: "rows \<noteq> []"
  proof
    assume "rows = []"
    with t show False by simp
  qed
  from n r have "length rows - n < length rows"
    by (simp add: diff_less)
  then show "((n, drop n rows), (n, rows)) \<in> measure (\<lambda>(n, rows). length rows)"
    by simp
qed

declare partitions.simps [simp del]

text \<open>
  What a generator gives its consumer: the items it yields, in order, and the exception
  that ends it, if one does.
\<close>

type_synonym 'a generated = "'a list \<times> exn option"

text \<open>
  \<^verbatim>\<open>
  stmt = stmt.execution_options(yield_per=batch_size)
  result = await self.dbsession.stream(stmt)
  async for partition in result.partitions(batch_size):
      for row in partition:
          yield row[0]
  \<close>
  The batch size is a natural number here; the default is 1000.
\<close>

definition default_batch_size :: nat where
  "default_batch_size = 1000"

definition iterator ::
  "'q session \<Rightarrow> 'q stmt \<Rightarrow> nat \<Rightarrow> pyval generated \<times> 'q session" where
  "iterator s stmt batch_size =
     (case stream s (Execution_options_yield_per batch_size stmt) of (r, s') \<Rightarrow>
        (case r of
           Inl e \<Rightarrow> ([], Some e)
         | Inr result \<Rightarrow>
             (concat (map (\<lambda>partition. map row0 partition)
                        (partitions batch_size result)),
              None),
         s'))"

section \<open>Query: aggregate operations\<close>

text \<open>
  \<^verbatim>\<open>
  stmt = sa.select(sa.exists(stmt))
  result = await self.dbsession.scalars(stmt)
  return result.one() is True
  \<close>
\<close>

definition exists :: "'q session \<Rightarrow> 'q stmt \<Rightarrow> (exn + bool) \<times> 'q session" where
  "exists s stmt =
     (case scalars s (Select_exists stmt) of (r, s') \<Rightarrow>
        (case (case r of Inl e \<Rightarrow> Inl e | Inr result \<Rightarrow> result_one result) of
           Inl e \<Rightarrow> Inl e
         | Inr v \<Rightarrow> Inr (v = PBool True),
         s'))"

text \<open>
  \<open>int(x)\<close>. Of a string it reads an optional sign and decimal digits, surrounded by
  optional white space (digit-group underscores are not read here); of \<open>None\<close> or of an
  object it is a \<open>TypeError\<close>.
\<close>

definition is_space :: "char \<Rightarrow> bool" where
  "is_space c = (c \<in> set [CHR '' '', CHR 0x09, CHR 0x0A, CHR 0x0B, CHR 0x0C, CHR 0x0D])"

definition strip :: "string \<Rightarrow> string" where
  "strip s = rev (dropWhile is_space (rev (dropWhile is_space s)))"

definition digit_of :: "char \<Rightarrow> nat option" where
  "digit_of c =
     (let k = (of_char c :: nat) in if 48 \<le> k \<and> k \<le> 57 then Some (k - 48) else None)"

fun digits_value :: "nat \<Rightarrow> string \<Rightarrow> nat option" where
  "digits_value acc [] = Some acc"
| "digits_value acc (c # cs) =
     (case digit_of c of None \<Rightarrow> None | Some d \<Rightarrow> digits_value (10 * acc + d) cs)"

definition nat_of_digits :: "string \<Rightarrow> nat option" where
  "nat_of_digits ds = (if ds = [] then None else digits_value 0 ds)"

definition int_of_str :: "string \<Rightarrow> int option" where
  "int_of_str s =
     (case strip s of
        [] \<Rightarrow> None
      | c # cs \<Rightarrow>
          if c = CHR ''-'' then map_option (\<lambda>n. - int n) (nat_of_digits cs)
          else if c = CHR ''+'' then map_option int (nat_of_digits cs)
          else map_option int (nat_of_digits (c # cs)))"

fun py_int :: "pyval \<Rightarrow> exn + int" where
  "py_int PNone = Inl (Exn TypeError ''int() argument must be a number'' None)"
| "py_int (PBool b) = Inr (if b then 1 else 0)"
| "py_int (PInt i) = Inr i"
| "py_int (PStr s) =
     (case int_of_str s of
        None \<Rightarrow> Inl (Exn ValueError ''invalid literal for int()'' None)
      | Some i \<Rightarrow> Inr i)"
| "py_int (PObj s attrs) = Inl (Exn TypeError ''int() argument must be a number'' None)"

text \<open>
  \<^verbatim>\<open>
  stmt = sa.select(sa.func.count()).select_from(stmt.subquery())
  result = await self.dbsession.scalars(stmt)
  count = result.one()
  return int(count) if count else 0
  \<close>
\<close>

definition count :: "'q session \<Rightarrow> 'q stmt \<Rightarrow> (exn + int) \<times> 'q session" where
  "count s stmt =
     (case scalars s (Select_count_from_subquery stmt) of (r, s') \<Rightarrow>
        (case (case r of Inl e \<Rightarrow> Inl e | Inr result \<Rightarrow> result_one result) of
           Inl e \<Rightarrow> Inl e
         | Inr c \<Rightarrow> if py_truthy c then py_int c else Inr 0,
         s'))"

section \<open>Query: projection\<close>

text \<open>
  \<open>getattr(obj, name)\<close>: an attribute of an object, or an \<open>AttributeError\<close>. (The
  attributes that the built-in scalar types have are not part of this model.)
\<close>

fun getattr :: "pyval \<Rightarrow> string \<Rightarrow> exn + pyval" where
  "getattr (PObj s attrs) name =
     (case map_of attrs name of
        None \<Rightarrow> Inl (Exn AttributeError name None)
      | Some v \<Rightarrow> Inr v)"
| "getattr v name = Inl (Exn AttributeError name None)"

text \<open>
  \<open>operator.attrgetter(attr)\<close> splits a dotted name at its dots and looks the parts up
  one after the other.
\<close>

fun split_dots :: "string \<Rightarrow> string \<Rightarrow> string list" where
  "split_dots cur [] = [rev cur]"
| "split_dots cur (c # cs) =
     (if c = CHR ''.'' then rev cur # split_dots [] cs else split_dots (c # cur) cs)"

fun getattrs :: "string list \<Rightarrow> pyval \<Rightarrow> exn + pyval" where
  "getattrs [] obj = Inr obj"
| "getattrs (name # names) obj =
     (case getattr obj name of Inl e \<Rightarrow> Inl e | Inr v \<Rightarrow> getattrs names v)"

definition attrgetter :: "string \<Rightarrow> pyval \<Rightarrow> exn + pyval" where
  "attrgetter attr obj = getattrs (split_dots [] attr) obj"

text \<open>\<open>str(x)\<close>, the default label.\<close>

definition digit_char :: "nat \<Rightarrow> char" where
  "digit_char d = ''0123456789'' ! d"

function show_nat :: "nat \<Rightarrow> string" where
  "show_nat n =
     (if n < 10 then [digit_char n] else show_nat (n div 10) @ [digit_char (n mod 10)])"
  by pat_completeness auto
termination
  by (relation "measure (\<lambda>n. n)") auto

declare show_nat.simps [simp del]

definition show_int :: "int \<Rightarrow> string" where
  "show_int i = (if i < 0 then CHR ''-'' # show_nat (nat (- i)) else show_nat (nat i))"

fun py_str :: "pyval \<Rightarrow> string" where
  "py_str PNone = ''None''"
| "py_str (PBool b) = (if b then ''True'' else ''False'')"
| "py_str (PInt i) = show_int i"
| "py_str (PStr s) = s"
| "py_str (PObj s attrs) = s"

text \<open>
  A selector is a field name or a one-argument function of the row
  (\<open>isinstance(label_attr, str)\<close> tells them apart). The defaults are
  \<open>label_attr = str\<close> and \<open>value_attr = "id"\<close>.
\<close>

datatype selector = Attr string | Callable "pyval \<Rightarrow> exn + pyval"

definition default_label_attr :: selector where
  "default_label_attr = Callable (\<lambda>item. Inr (PStr (py_str item)))"

definition default_value_attr :: selector where
  "default_value_attr = Attr ''id''"

text \<open>
  \<^verbatim>\<open>
  if isinstance(label_attr, str):
      label_getter = operator.attrgetter(label_attr)
  else:
      label_getter = label_attr
  \<close>
\<close>

fun getter :: "selector \<Rightarrow> pyval \<Rightarrow> exn + pyval" where
  "getter (Attr name) = attrgetter name"
| "getter (Callable f) = f"

text \<open>
  \<^verbatim>\<open>
  for item in ...:
      yield value_getter(item), label_getter(item)
  \<close>
  The value is computed before the label; an exception in either ends the generator
  after the pairs it has already yielded.
\<close>

fun project ::
  "(pyval \<Rightarrow> exn + pyval) \<Rightarrow> (pyval \<Rightarrow> exn + pyval) \<Rightarrow> pyval list \<Rightarrow>
   (pyval \<times> pyval) generated" where
  "project value_getter label_getter [] = ([], None)"
| "project value_getter label_getter (item # items) =
     (case value_getter item of
        Inl e \<Rightarrow> ([], Some e)
      | Inr v \<Rightarrow>
          (case label_getter item of
             Inl e \<Rightarrow> ([], Some e)
           | Inr l \<Rightarrow>
               (case project value_getter label_getter items of
                  (pairs, ending) \<Rightarrow> ((v, l) # pairs, ending))))"

definition choices ::
  "'q session \<Rightarrow> 'q stmt \<Rightarrow> selector \<Rightarrow> selector \<Rightarrow>
   (pyval \<times> pyval) generated \<times> 'q session" where
  "choices s stmt label_attr value_attr =
     (let label_getter = getter label_attr;
          value_getter = getter value_attr
      in case all s stmt of (r, s') \<Rightarrow>
           (case r of
              Inl e \<Rightarrow> ([], Some e)
            | Inr items \<Rightarrow> project value_getter label_getter (collection_iter items),
            s'))"

section \<open>An example database\<close>

text \<open>
  A small database for evaluating the operations: queries are numbered. Query 0 matches
  nothing; 1, 2 and 3 match one row each, whose value is zero, the empty string and NULL;
  4 matches two entities; 5 matches five integers; 6 matches one entity; every other
  query makes the session fail.
\<close>

definition example_db :: "nat \<Rightarrow> exn + row list" where
  "example_db q =
     (if q = 0 then Inr []
      else if q = 1 then Inr [Row (PInt 0) []]
      else if q = 2 then Inr [Row (PStr []) []]
      else if q = 3 then Inr [Row PNone []]
      else if q = 4 then
        Inr [Row (PObj ''A'' [(''id'', PInt 1), (''name'', PStr ''a'')]) [],
             Row (PObj ''B'' [(''id'', PInt 2), (''name'', PStr ''b'')]) []]
      else if q = 5 then
        Inr [Row (PInt 1) [], Row (PInt 2) [], Row (PInt 3) [], Row (PInt 4) [],
             Row (PInt 5) []]
      else if q = 6 then Inr [Row (PObj ''A'' [(''id'', PInt 1), (''name'', PStr ''a'')]) []]
      else Inl (Exn (UserError ''OperationalError'') ''connection lost'' None))"

definition example_session :: "nat session" where
  "example_session = \<lparr>database = example_db, dispatched = []\<rparr>"

definition user_not_found :: exn where
  "user_not_found = Exn (UserError ''UserNotFound'') ''user not found'' None"

section \<open>Cardinality operations: properties\<close>

lemma fst_scalars:
  "fst (scalars s stmt) =
     (case run (database s) stmt of Inl e \<Rightarrow> Inl e | Inr rs \<Rightarrow> Inr (map row0 rs))"
  by (simp add: scalars_def)

lemma snd_scalars:
  "snd (scalars s stmt) = s\<lparr>dispatched := dispatched s @ [Scalars stmt]\<rparr>"
  by (simp add: scalars_def)

lemma fst_one:
  "fst (one s stmt) =
     (case run (database s) stmt of
        Inl ex \<Rightarrow>
          if isinstance ex NoResultFound then Inl (Exn NoResultError [] (Some ex))
          else if isinstance ex MultipleResultsFound
            then Inl (Exn MultipleResultsError [] (Some ex))
          else Inl ex
      | Inr rs \<Rightarrow>
          (case result_one (map row0 rs) of
             Inr v \<Rightarrow> Inr v
           | Inl ex \<Rightarrow>
               if isinstance ex NoResultFound then Inl (Exn NoResultError [] (Some ex))
               else if isinstance ex MultipleResultsFound
                 then Inl (Exn MultipleResultsError [] (Some ex))
               else Inl ex))"
  by (simp add: one_def scalars_def split: sum.splits)

lemma result_one_many:
  "1 < length xs \<Longrightarrow>
   result_one xs = Inl (Exn MultipleResultsFound
            ''Multiple rows were found when exactly one was required'' None)"
  by (cases xs rule: result_one.cases) simp_all

lemma result_one_or_none_many:
  "1 < length xs \<Longrightarrow>
   result_one_or_none xs = Inl (Exn MultipleResultsFound
            ''Multiple rows were found when one or none was required'' None)"
  by (cases xs rule: result_one_or_none.cases) simp_all

text \<open>
  Claim C1. \<open>one\<close> returns the single row when the query yields exactly one row; with
  no rows it raises \<open>NoResultError\<close> (caused by \<open>NoResultFound\<close>), with more than one
  row \<open>MultipleResultsError\<close> (caused by \<open>MultipleResultsFound\<close>); a fault of the
  session that is neither a \<open>NoResultFound\<close> nor a \<open>MultipleResultsFound\<close> reaches
  the caller as it is.
\<close>

theorem one_cardinality:
  "(\<forall>r. run (database s) stmt = Inr [r] \<longrightarrow> fst (one s stmt) = Inr (row0 r)) \<and>
   (run (database s) stmt = Inr [] \<longrightarrow>
      (\<exists>ex. exn_cls ex = NoResultFound \<and>
            fst (one s stmt) = Inl (Exn NoResultError [] (Some ex)))) \<and>
   (\<forall>rs. run (database s) stmt = Inr rs \<and> 1 < length rs \<longrightarrow>
      (\<exists>ex. exn_cls ex = MultipleResultsFound \<and>
            fst (one s stmt) = Inl (Exn MultipleResultsError [] (Some ex)))) \<and>
   (\<forall>e. run (database s) stmt = Inl e \<and> \<not> isinstance e NoResultFound \<and>
        \<not> isinstance e MultipleResultsFound \<longrightarrow>
      fst (one s stmt) = Inl e)"
  by (simp add: fst_one result_one_many isinstance_def)

theorem one_cardinality_witness:
  "run (database example_session) (Select 1) = Inr [Row (PInt 0) []] \<and>
   fst (one example_session (Select 1)) = Inr (PInt 0) \<and>
   run (database example_session) (Select 0) = Inr [] \<and>
   (\<exists>ex. exn_cls ex = NoResultFound \<and>
         fst (one example_session (Select 0)) = Inl (Exn NoResultError [] (Some ex))) \<and>
   (\<exists>ex. exn_cls ex = MultipleResultsFound \<and>
         fst (one example_session (Select 5)) =
           Inl (Exn MultipleResultsError [] (Some ex))) \<and>
   run (database example_session) (Select 7) =
     Inl (Exn (UserError ''OperationalError'') ''connection lost'' None) \<and>
   fst (one example_session (Select 7)) =
     Inl (Exn (UserError ''OperationalError'') ''connection lost'' None)"
  using one_cardinality [of example_session "Select 1"]
    one_cardinality [of example_session "Select 0"]
    one_cardinality [of example_session "Select 5"]
    one_cardinality [of example_session "Select 7"]
  by (simp add: example_session_def example_db_def isinstance_def)

lemma fst_one_or_none:
  "fst (one_or_none s stmt) =
     (case run (database s) stmt of
        Inl ex \<Rightarrow>
          if isinstance ex MultipleResultsFound
            then Inl (Exn MultipleResultsError [] (Some ex))
          else Inl ex
      | Inr rs \<Rightarrow>
          (case result_one_or_none (map row0 rs) of
             Inr v \<Rightarrow> Inr v
           | Inl ex \<Rightarrow>
               if isinstance ex MultipleResultsFound
                 then Inl (Exn MultipleResultsError [] (Some ex))
               else Inl ex))"
  by (simp add: one_or_none_def scalars_def split: sum.splits)

lemma fst_one_or_raise:
  "fst (one_or_raise s stmt exc) =
     (case fst (one_or_none s stmt) of
        Inl e \<Rightarrow> Inl e
      | Inr entity \<Rightarrow> if entity = PNone then Inl exc else Inr entity)"
  by (simp add: one_or_raise_def split: prod.splits)

lemma fst_one_or_default:
  "fst (one_or_default s stmt d) =
     (case fst (one_or_none s stmt) of
        Inl e \<Rightarrow> Inl e
      | Inr entity \<Rightarrow> Inr (if py_truthy entity then entity else d))"
  by (simp add: one_or_default_def split: prod.splits)

text \<open>
  Claim C4. \<open>one_or_none\<close> returns the single row when the query yields exactly one
  row, \<open>None\<close> when it yields no row, and raises \<open>MultipleResultsError\<close> when it
  yields more than one.
\<close>

theorem one_or_none_cardinality:
  "(\<forall>r. run (database s) stmt = Inr [r] \<longrightarrow> fst (one_or_none s stmt) = Inr (row0 r)) \<and>
   (run (database s) stmt = Inr [] \<longrightarrow> fst (one_or_none s stmt) = Inr PNone) \<and>
   (\<forall>rs. run (database s) stmt = Inr rs \<and> 1 < length rs \<longrightarrow>
      (\<exists>ex. exn_cls ex = MultipleResultsFound \<and>
            fst (one_or_none s stmt) = Inl (Exn MultipleResultsError [] (Some ex))))"
  by (simp add: fst_one_or_none result_one_or_none_many isinstance_def)

theorem one_or_none_cardinality_witness:
  "run (database example_session) (Select 6) =
     Inr [Row (PObj ''A'' [(''id'', PInt 1), (''name'', PStr ''a'')]) []] \<and>
   fst (one_or_none example_session (Select 6)) =
     Inr (PObj ''A'' [(''id'', PInt 1), (''name'', PStr ''a'')]) \<and>
   run (database example_session) (Select 0) = Inr [] \<and>
   fst (one_or_none example_session (Select 0)) = Inr PNone \<and>
   (\<exists>ex. exn_cls ex = MultipleResultsFound \<and>
         fst (one_or_none example_session (Select 4)) =
           Inl (Exn MultipleResultsError [] (Some ex)))"
  using one_or_none_cardinality [of example_session "Select 6"]
    one_or_none_cardinality [of example_session "Select 0"]
    one_or_none_cardinality [of example_session "Select 4"]
  by (simp add: example_session_def example_db_def)

text \<open>
  Claim C5 says that \<open>one_or_raise\<close> returns the single row whenever the query yields
  exactly one row. Query 3 of the example database yields exactly one row, whose value
  is NULL: \<open>one_or_none\<close> answers \<open>None\<close> for it, and \<open>one_or_raise\<close> raises the
  caller's error instead of returning the row.
\<close>

theorem one_or_raise_null_row_counterexample:
  "run (database example_session) (Select 3) = Inr [Row PNone []] \<and>
   fst (one_or_raise example_session (Select 3) user_not_found) \<noteq> Inr (row0 (Row PNone [])) \<and>
   fst (one_or_raise example_session (Select 3) user_not_found) = Inl user_not_found"
  by (simp add: fst_one_or_raise fst_one_or_none example_session_def example_db_def)

text \<open>
  Claim C5, amended. \<open>one_or_raise\<close> raises exactly the caller's error when the query
  yields no row, and returns the single row when the query yields exactly one row whose
  value is not \<open>None\<close>.
\<close>

theorem one_or_raise_present:
  "(run (database s) stmt = Inr [] \<longrightarrow> fst (one_or_raise s stmt exc) = Inl exc) \<and>
   (\<forall>r. run (database s) stmt = Inr [r] \<and> row0 r \<noteq> PNone \<longrightarrow>
      fst (one_or_raise s stmt exc) = Inr (row0 r))"
  by (simp add: fst_one_or_raise fst_one_or_none)

theorem one_or_raise_present_witness:
  "run (database example_session) (Select 0) = Inr [] \<and>
   fst (one_or_raise example_session (Select 0) user_not_found) = Inl user_not_found \<and>
   run (database example_session) (Select 6) =
     Inr [Row (PObj ''A'' [(''id'', PInt 1), (''name'', PStr ''a'')]) []] \<and>
   fst (one_or_raise example_session (Select 6) user_not_found) =
     Inr (PObj ''A'' [(''id'', PInt 1), (''name'', PStr ''a'')])"
  using one_or_raise_present [of example_session "Select 0" user_not_found]
    one_or_raise_present [of example_session "Select 6" user_not_found]
  by (simp add: example_session_def example_db_def)

text \<open>
  Claim C9. When the query yields more than one row, \<open>one_or_raise\<close> fails as its call
  of \<open>one_or_none\<close> does, with \<open>MultipleResultsError\<close>, whatever error the caller
  supplied; it is not the caller's error (unless that is itself a
  \<open>MultipleResultsError\<close>).
\<close>

theorem one_or_raise_multiple:
  "run (database s) stmt = Inr rs \<Longrightarrow> 1 < length rs \<Longrightarrow>
     fst (one_or_raise s stmt exc) = fst (one_or_none s stmt) \<and>
     (\<exists>ex. exn_cls ex = MultipleResultsFound \<and>
           fst (one_or_raise s stmt exc) = Inl (Exn MultipleResultsError [] (Some ex))) \<and>
     (exn_cls exc \<noteq> MultipleResultsError \<longrightarrow> fst (one_or_raise s stmt exc) \<noteq> Inl exc)"
  by (auto simp add: fst_one_or_raise fst_one_or_none result_one_or_none_many isinstance_def)

theorem one_or_raise_multiple_witness:
  "run (database example_session) (Select 4) =
     Inr [Row (PObj ''A'' [(''id'', PInt 1), (''name'', PStr ''a'')]) [],
          Row (PObj ''B'' [(''id'', PInt 2), (''name'', PStr ''b'')]) []] \<and>
   fst (one_or_raise example_session (Select 4) user_not_found) =
     fst (one_or_none example_session (Select 4)) \<and>
   (\<exists>ex. exn_cls ex = MultipleResultsFound \<and>
         fst (one_or_raise example_session (Select 4) user_not_found) =
           Inl (Exn MultipleResultsError [] (Some ex))) \<and>
   exn_cls user_not_found \<noteq> MultipleResultsError \<and>
   fst (one_or_raise example_session (Select 4) user_not_found) \<noteq> Inl user_not_found"
proof -
  have h: "run (database example_session) (Select 4) =
     Inr [Row (PObj ''A'' [(''id'', PInt 1), (''name'', PStr ''a'')]) [],
          Row (PObj ''B'' [(''id'', PInt 2), (''name'', PStr ''b'')]) []]"
    by (simp add: example_session_def example_db_def)
  have len: "1 < length [Row (PObj ''A'' [(''id'', PInt 1), (''name'', PStr ''a'')]) [],
          Row (PObj ''B'' [(''id'', PInt 2), (''name'', PStr ''b'')]) []]"
    by simp
  note c = one_or_raise_multiple [OF h len, of user_not_found]
  have ne: "exn_cls user_not_found \<noteq> MultipleResultsError"
    by (simp add: user_not_found_def)
  from c have c1: "fst (one_or_raise example_session (Select 4) user_not_found) =
     fst (one_or_none example_session (Select 4))"
    by (rule conjunct1)
  from c have c2: "\<exists>ex. exn_cls ex = MultipleResultsFound \<and>
         fst (one_or_raise example_session (Select 4) user_not_found) =
           Inl (Exn MultipleResultsError [] (Some ex))"
    by (rule conjunct1 [OF conjunct2])
  from c have c3: "exn_cls user_not_found \<noteq> MultipleResultsError \<longrightarrow>
     fst (one_or_raise example_session (Select 4) user_not_found) \<noteq> Inl user_not_found"
    by (rule conjunct2 [OF conjunct2])
  from c3 ne have c4:
    "fst (one_or_raise example_session (Select 4) user_not_found) \<noteq> Inl user_not_found"
    by (rule mp)
  show ?thesis
    by (rule conjI [OF h conjI [OF c1 conjI [OF c2 conjI [OF ne c4]]]])
qed

text \<open>
  Claim C10. \<open>one_or_raise\<close> substitutes the caller's error only for \<open>None\<close>: any other
  value that \<open>one_or_none\<close> returns is returned unchanged. In particular a single row
  whose value is present but false (zero, the empty string) is returned by
  \<open>one_or_raise\<close>, while \<open>one_or_default\<close> replaces it by the default.
\<close>

theorem one_or_raise_keeps_falsy:
  "(\<forall>v. fst (one_or_none s stmt) = Inr v \<and> v \<noteq> PNone \<longrightarrow>
      fst (one_or_raise s stmt exc) = Inr v) \<and>
   (\<forall>r. run (database s) stmt = Inr [r] \<and> row0 r \<noteq> PNone \<and> \<not> py_truthy (row0 r) \<longrightarrow>
      fst (one_or_raise s stmt exc) = Inr (row0 r) \<and>
      fst (one_or_default s stmt d) = Inr d) \<and>
   PInt 0 \<noteq> PNone \<and> \<not> py_truthy (PInt 0) \<and> PStr [] \<noteq> PNone \<and> \<not> py_truthy (PStr [])"
  by (simp add: fst_one_or_raise fst_one_or_default fst_one_or_none)

theorem one_or_raise_keeps_falsy_witness:
  "run (database example_session) (Select 1) = Inr [Row (PInt 0) []] \<and>
   fst (one_or_raise example_session (Select 1) user_not_found) = Inr (PInt 0) \<and>
   fst (one_or_default example_session (Select 1) (PInt 7)) = Inr (PInt 7) \<and>
   run (database example_session) (Select 2) = Inr [Row (PStr []) []] \<and>
   fst (one_or_raise example_session (Select 2) user_not_found) = Inr (PStr []) \<and>
   fst (one_or_default example_session (Select 2) (PStr ''n/a'')) = Inr (PStr ''n/a'')"
  using one_or_raise_keeps_falsy [of example_session "Select 1" user_not_found "PInt 7"]
    one_or_raise_keeps_falsy [of example_session "Select 2" user_not_found "PStr ''n/a''"]
  by (simp add: example_session_def example_db_def)

text \<open>
  Claim C2. \<open>one_or_default\<close> returns the default when the query yields no row and
  also when the single row's value is false (zero and the empty string are); a single
  row whose value is true is returned unchanged.
\<close>

theorem one_or_default_falsy:
  "(run (database s) stmt = Inr [] \<longrightarrow> fst (one_or_default s stmt d) = Inr d) \<and>
   (\<forall>r. run (database s) stmt = Inr [r] \<and> \<not> py_truthy (row0 r) \<longrightarrow>
      fst (one_or_default s stmt d) = Inr d) \<and>
   (\<forall>r. run (database s) stmt = Inr [r] \<and> py_truthy (row0 r) \<longrightarrow>
      fst (one_or_default s stmt d) = Inr (row0 r)) \<and>
   \<not> py_truthy (PInt 0) \<and> \<not> py_truthy (PStr [])"
  by (simp add: fst_one_or_default fst_one_or_none)

theorem one_or_default_falsy_witness:
  "run (database example_session) (Select 0) = Inr [] \<and>
   fst (one_or_default example_session (Select 0) (PInt 7)) = Inr (PInt 7) \<and>
   run (database example_session) (Select 1) = Inr [Row (PInt 0) []] \<and>
   fst (one_or_default example_session (Select 1) (PInt 7)) = Inr (PInt 7) \<and>
   run (database example_session) (Select 2) = Inr [Row (PStr []) []] \<and>
   fst (one_or_default example_session (Select 2) (PInt 7)) = Inr (PInt 7) \<and>
   run (database example_session) (Select 6) =
     Inr [Row (PObj ''A'' [(''id'', PInt 1), (''name'', PStr ''a'')]) []] \<and>
   fst (one_or_default example_session (Select 6) (PInt 7)) =
     Inr (PObj ''A'' [(''id'', PInt 1), (''name'', PStr ''a'')])"
  using one_or_default_falsy [of example_session "Select 0" "PInt 7"]
    one_or_default_falsy [of example_session "Select 1" "PInt 7"]
    one_or_default_falsy [of example_session "Select 2" "PInt 7"]
    one_or_default_falsy [of example_session "Select 6" "PInt 7"]
  by (simp add: example_session_def example_db_def)

section \<open>Bulk and streaming operations: properties\<close>

lemma concat_partitions: "0 < n \<Longrightarrow> concat (partitions n rows) = rows"
proof (induction n rows rule: partitions.induct)
  case (1 n rows)
  show ?case
  proof (cases "take n rows")
    case Nil
    with "1.prems" have "rows = []"
      by simp
    then show ?thesis
      by (subst partitions.simps) simp
  next
    case (Cons p ps)
    then have unfold: "partitions n rows = take n rows # partitions n (drop n rows)"
      by (subst partitions.simps) simp
    from "1.IH" [OF Cons] "1.prems"
    have "concat (partitions n (drop n rows)) = drop n rows"
      by simp
    with unfold show ?thesis
      by simp
  qed
qed

lemma fst_all:
  "fst (all s stmt) =
     (case run (database s) stmt of
        Inl e \<Rightarrow> Inl e
      | Inr rs \<Rightarrow> Inr (Collection (map row0 rs)))"
  by (simp add: all_def scalars_def result_all_def split: sum.splits)

lemma snd_all: "snd (all s stmt) = s\<lparr>dispatched := dispatched s @ [Scalars stmt]\<rparr>"
  by (simp add: all_def scalars_def)

lemma fst_iterator:
  "fst (iterator s stmt n) =
     (case run (database s) stmt of
        Inl e \<Rightarrow> ([], Some e)
      | Inr rs \<Rightarrow> (map row0 (concat (partitions n rs)), None))"
  by (simp add: iterator_def stream_def map_concat split: sum.splits)

text \<open>
  Claim C3. For every positive batch size, \<open>iterator\<close> yields exactly the rows that
  \<open>all\<close> returns, in the same order (and ends with the session's fault where \<open>all\<close>
  raises it): the right-hand side does not mention the batch size.
\<close>

theorem iterator_yields_all:
  "0 < batch_size \<Longrightarrow>
   fst (iterator s stmt batch_size) =
     (case fst (all s stmt) of
        Inl e \<Rightarrow> ([], Some e)
      | Inr rows \<Rightarrow> (collection_iter rows, None))"
  by (simp add: fst_iterator fst_all concat_partitions split: sum.splits)

theorem iterator_yields_all_witness:
  "0 < (2::nat) \<and>
   fst (all example_session (Select 5)) =
     Inr (Collection [PInt 1, PInt 2, PInt 3, PInt 4, PInt 5]) \<and>
   fst (iterator example_session (Select 5) 2) =
     ([PInt 1, PInt 2, PInt 3, PInt 4, PInt 5], None)"
  using iterator_yields_all [of 2 example_session "Select 5"]
  by (simp add: fst_all example_session_def example_db_def)

section \<open>Aggregate operations: properties\<close>

lemma select_exists_neq: "Select_exists stmt \<noteq> stmt"
  by (induction stmt) simp_all

lemma select_count_neq: "Select_count_from_subquery stmt \<noteq> stmt"
  by (induction stmt) simp_all

lemma fst_count:
  "run (database s) stmt = Inr rows \<Longrightarrow> fst (count s stmt) = Inr (int (length rows))"
  by (simp add: count_def scalars_def)

lemma snd_count:
  "snd (count s stmt) =
     s\<lparr>dispatched := dispatched s @ [Scalars (Select_count_from_subquery stmt)]\<rparr>"
  by (simp add: count_def scalars_def)

lemma fst_exists:
  "run (database s) stmt = Inr rows \<Longrightarrow> fst (exists s stmt) = Inr (rows \<noteq> [])"
  by (simp add: exists_def scalars_def)

lemma snd_exists:
  "snd (exists s stmt) = s\<lparr>dispatched := dispatched s @ [Scalars (Select_exists stmt)]\<rparr>"
  by (simp add: exists_def scalars_def)

text \<open>
  Claim C6. \<open>count\<close> sends the session one statement, the \<open>count(*)\<close> over the
  original query as a sub-query, and not the original query; when the original query
  yields \<open>N\<close> rows it returns \<open>N\<close>, and 0 (an integer, not \<open>None\<close>) when it yields
  none.
\<close>

theorem count_subquery:
  "dispatched (snd (count s stmt)) =
     dispatched s @ [Scalars (Select_count_from_subquery stmt)] \<and>
   Select_count_from_subquery stmt \<noteq> stmt \<and>
   (\<forall>rows. run (database s) stmt = Inr rows \<longrightarrow>
      fst (count s stmt) = Inr (int (length rows))) \<and>
   (run (database s) stmt = Inr [] \<longrightarrow> fst (count s stmt) = Inr 0)"
  by (simp add: fst_count snd_count select_count_neq)

theorem count_subquery_witness:
  "dispatched (snd (count example_session (Select 5))) =
     [Scalars (Select_count_from_subquery (Select 5))] \<and>
   run (database example_session) (Select 5) =
     Inr [Row (PInt 1) [], Row (PInt 2) [], Row (PInt 3) [], Row (PInt 4) [],
          Row (PInt 5) []] \<and>
   fst (count example_session (Select 5)) = Inr 5 \<and>
   run (database example_session) (Select 0) = Inr [] \<and>
   fst (count example_session (Select 0)) = Inr 0"
  using count_subquery [of example_session "Select 5"]
    count_subquery [of example_session "Select 0"]
  by (simp add: example_session_def example_db_def)

text \<open>
  Claim C7. \<open>exists\<close> sends the session one statement, the \<open>EXISTS\<close> test over the
  original query as a sub-query, and not the original query; it returns true exactly
  when the original query yields at least one row.
\<close>

theorem exists_probe:
  "dispatched (snd (exists s stmt)) = dispatched s @ [Scalars (Select_exists stmt)] \<and>
   Select_exists stmt \<noteq> stmt \<and>
   (\<forall>rows. run (database s) stmt = Inr rows \<longrightarrow>
      fst (exists s stmt) = Inr (rows \<noteq> []))"
  by (simp add: fst_exists snd_exists select_exists_neq)

theorem exists_probe_witness:
  "dispatched (snd (exists example_session (Select 4))) =
     [Scalars (Select_exists (Select 4))] \<and>
   run (database example_session) (Select 0) = Inr [] \<and>
   fst (exists example_session (Select 0)) = Inr False \<and>
   run (database example_session) (Select 1) = Inr [Row (PInt 0) []] \<and>
   fst (exists example_session (Select 1)) = Inr True"
  using exists_probe [of example_session "Select 4"]
    exists_probe [of example_session "Select 0"]
    exists_probe [of example_session "Select 1"]
  by (simp add: example_session_def example_db_def)

section \<open>Projection: properties\<close>

lemma split_dots_no_dot:
  "CHR ''.'' \<notin> set cs \<Longrightarrow> split_dots cur cs = [rev cur @ cs]"
  by (induction cs arbitrary: cur) auto

lemma attrgetter_plain:
  "CHR ''.'' \<notin> set name \<Longrightarrow> attrgetter name item = getattr item name"
  by (simp add: attrgetter_def split_dots_no_dot split: sum.splits)

lemma fst_project:
  "fst (project vg lg items) =
     map (\<lambda>item. (projr (vg item), projr (lg item)))
       (takeWhile (\<lambda>item. \<not> isl (vg item) \<and> \<not> isl (lg item)) items)"
  by (induction items) (auto split: sum.splits prod.splits)

lemma snd_project_None:
  "\<forall>item \<in> set items. \<not> isl (vg item) \<and> \<not> isl (lg item) \<Longrightarrow>
   snd (project vg lg items) = None"
  by (induction items) (auto split: sum.splits prod.splits)

lemma project_all_ok:
  "\<forall>item \<in> set items. \<not> isl (vg item) \<and> \<not> isl (lg item) \<Longrightarrow>
   project vg lg items = (map (\<lambda>item. (projr (vg item), projr (lg item))) items, None)"
proof -
  assume ok: "\<forall>item \<in> set items. \<not> isl (vg item) \<and> \<not> isl (lg item)"
  then have tw: "takeWhile (\<lambda>item. \<not> isl (vg item) \<and> \<not> isl (lg item)) items = items"
    by (simp add: takeWhile_eq_all_conv)
  have f: "fst (project vg lg items) =
      map (\<lambda>item. (projr (vg item), projr (lg item))) items"
    unfolding fst_project tw by (rule refl)
  from ok have e: "snd (project vg lg items) = None"
    by (rule snd_project_None)
  from f e show ?thesis
    by (simp add: prod_eq_iff)
qed

lemma choices_unfold:
  "choices s stmt label_attr value_attr =
     (case fst (all s stmt) of
        Inl e \<Rightarrow> ([], Some e)
      | Inr items \<Rightarrow> project (getter value_attr) (getter label_attr) (collection_iter items),
      snd (all s stmt))"
  by (simp add: choices_def Let_def split: prod.splits)

text \<open>
  Claim C8. \<open>choices\<close> uses the session exactly as \<open>all\<close> does and yields nothing
  when \<open>all\<close> fails. When both selectors succeed on every row it yields one
  (value, label) pair per row, in row order; in general it yields the pairs of the rows
  before the first one on which a selector fails. A field name (without dots) is looked
  up with \<open>getattr\<close> on the row, a function is applied to the row; the defaults are the
  row's \<open>str\<close> as label and its \<open>id\<close> attribute as value. For the two rows of query 4
  and the selectors \<open>"name"\<close> and \<open>"id"\<close> the pairs are (1, "a") and (2, "b").
\<close>

theorem choices_projection:
  "snd (choices s stmt label_attr value_attr) = snd (all s stmt) \<and>
   (\<forall>e. fst (all s stmt) = Inl e \<longrightarrow>
      fst (choices s stmt label_attr value_attr) = ([], Some e)) \<and>
   (\<forall>rows. fst (all s stmt) = Inr (Collection rows) \<and>
      (\<forall>item \<in> set rows.
         \<not> isl (getter value_attr item) \<and> \<not> isl (getter label_attr item)) \<longrightarrow>
      fst (choices s stmt label_attr value_attr) =
        (map (\<lambda>item. (projr (getter value_attr item), projr (getter label_attr item))) rows,
         None)) \<and>
   (\<forall>rows. fst (all s stmt) = Inr (Collection rows) \<longrightarrow>
      fst (fst (choices s stmt label_attr value_attr)) =
        map (\<lambda>item. (projr (getter value_attr item), projr (getter label_attr item)))
          (takeWhile (\<lambda>item. \<not> isl (getter value_attr item) \<and>
                             \<not> isl (getter label_attr item)) rows)) \<and>
   (\<forall>name item. CHR ''.'' \<notin> set name \<longrightarrow> getter (Attr name) item = getattr item name) \<and>
   (\<forall>f item. getter (Callable f) item = f item) \<and>
   (\<forall>item. getter default_label_attr item = Inr (PStr (py_str item))) \<and>
   (\<forall>item. getter default_value_attr item = getattr item ''id'') \<and>
   fst (choices example_session (Select 4) (Attr ''name'') (Attr ''id'')) =
     ([(PInt 1, PStr ''a''), (PInt 2, PStr ''b'')], None)"
proof (intro conjI allI impI)
  show "snd (choices s stmt label_attr value_attr) = snd (all s stmt)"
    by (simp add: choices_unfold)
next
  fix e
  assume "fst (all s stmt) = Inl e"
  then show "fst (choices s stmt label_attr value_attr) = ([], Some e)"
    by (simp add: choices_unfold)
next
  fix rows
  assume "fst (all s stmt) = Inr (Collection rows) \<and>
      (\<forall>item \<in> set rows.
         \<not> isl (getter value_attr item) \<and> \<not> isl (getter label_attr item))"
  then show "fst (choices s stmt label_attr value_attr) =
        (map (\<lambda>item. (projr (getter value_attr item), projr (getter label_attr item))) rows,
         None)"
    by (simp add: choices_unfold project_all_ok)
next
  fix rows
  assume "fst (all s stmt) = Inr (Collection rows)"
  then show "fst (fst (choices s stmt label_attr value_attr)) =
        map (\<lambda>item. (projr (getter value_attr item), projr (getter label_attr item)))
          (takeWhile (\<lambda>item. \<not> isl (getter value_attr item) \<and>
                             \<not> isl (getter label_attr item)) rows)"
    by (simp add: choices_unfold fst_project)
next
  fix name item
  assume "CHR ''.'' \<notin> set name"
  then show "getter (Attr name) item = getattr item name"
    by (simp add: attrgetter_plain)
next
  fix f item
  show "getter (Callable f) item = f item"
    by simp
next
  fix item
  show "getter default_label_attr item = Inr (PStr (py_str item))"
    by (simp add: default_label_attr_def)
next
  fix item
  have "CHR ''.'' \<notin> set ''id''"
    by simp
  then show "getter default_value_attr item = getattr item ''id''"
    by (simp add: default_value_attr_def attrgetter_plain)
next
  have n: "CHR ''.'' \<notin> set ''name''" and i: "CHR ''.'' \<notin> set ''id''"
    by simp_all
  show "fst (choices example_session (Select 4) (Attr ''name'') (Attr ''id'')) =
     ([(PInt 1, PStr ''a''), (PInt 2, PStr ''b'')], None)"
    by (simp add: choices_unfold fst_all example_session_def example_db_def
        attrgetter_plain [OF n] attrgetter_plain [OF i])
qed

theorem choices_projection_witness:
  "fst (all example_session (Select 4)) =
     Inr (Collection [PObj ''A'' [(''id'', PInt 1), (''name'', PStr ''a'')],
                      PObj ''B'' [(''id'', PInt 2), (''name'', PStr ''b'')]]) \<and>
   fst (choices example_session (Select 4) default_label_attr default_value_attr) =
     ([(PInt 1, PStr ''A''), (PInt 2, PStr ''B'')], None) \<and>
   fst (all example_session (Select 7)) =
     Inl (Exn (UserError ''OperationalError'') ''connection lost'' None) \<and>
   fst (choices example_session (Select 7) default_label_attr default_value_attr) =
     ([], Some (Exn (UserError ''OperationalError'') ''connection lost'' None)) \<and>
   fst (fst (choices example_session (Select 5) default_label_attr default_value_attr)) = []"
proof -
  have a4: "fst (all example_session (Select 4)) =
     Inr (Collection [PObj ''A'' [(''id'', PInt 1), (''name'', PStr ''a'')],
                      PObj ''B'' [(''id'', PInt 2), (''name'', PStr ''b'')]])"
    by (simp add: fst_all example_session_def example_db_def)
  have a7: "fst (all example_session (Select 7)) =
     Inl (Exn (UserError ''OperationalError'') ''connection lost'' None)"
    by (simp add: fst_all example_session_def example_db_def)
  have a5: "fst (all example_session (Select 5)) =
     Inr (Collection [PInt 1, PInt 2, PInt 3, PInt 4, PInt 5])"
    by (simp add: fst_all example_session_def example_db_def)
  note t4 = choices_projection [of example_session "Select 4" default_label_attr default_value_attr]
  note t7 = choices_projection [of example_session "Select 7" default_label_attr default_value_attr]
  note t5 = choices_projection [of example_session "Select 5" default_label_attr default_value_attr]
  have c4: "fst (choices example_session (Select 4) default_label_attr default_value_attr) =
     ([(PInt 1, PStr ''A''), (PInt 2, PStr ''B'')], None)"
    using t4 a4 by simp
  have c7: "fst (choices example_session (Select 7) default_label_attr default_value_attr) =
     ([], Some (Exn (UserError ''OperationalError'') ''connection lost'' None))"
    using t7 a7 by simp
  have c5: "fst (fst (choices example_session (Select 5) default_label_attr default_value_attr)) = []"
    using t5 a5 by simp
  from a4 c4 a7 c7 c5 show ?thesis
    by simp
qed

end
